theory Spec2Isabelle
  imports Complex_Main
begin

section \<open>Numbers\<close>

text \<open>
  The widgets of \<^verbatim>\<open>MechanicsLab.tsx\<close> compute on JavaScript numbers. The model below
  takes them as real numbers: it is the exact arithmetic of the formulas. Where a claim
  depends on the rounding of the stored doubles, the step of experiment 1 is modelled a
  second time with every operation rounded (the definitions ending in \<open>_d\<close>).

  \<^verbatim>\<open>Math.pow(b, e)\<close> is only ever called with a positive base (a radius taken from a
  slider bounded below by 0.3, or a volume that went through \<^verbatim>\<open>Math.max(0.0001, _)\<close>),
  where it is the real power \<open>b powr e\<close>.
\<close>

definition Math_pow :: "real \<Rightarrow> real \<Rightarrow> real" where
  "Math_pow b e = b powr e"

section \<open>Experiment 1: mechanics (Young-Laplace)\<close>

definition SURFACE_TENSION :: real where
  "SURFACE_TENSION = 50"

definition FLOW_RATE_CONSTANT :: real where
  "FLOW_RATE_CONSTANT = 0.0005"

text \<open>
  The state of \<^verbatim>\<open>MechanicsExperiment\<close>: the four \<^verbatim>\<open>useState\<close> cells and the two
  volumes of \<^verbatim>\<open>stateRef.current\<close>.
\<close>

record mech =
  r1 :: real
  r2 :: real
  valveOpen :: bool
  animating :: bool
  v1 :: real
  v2 :: real

text \<open>
  The first effect: while no animation runs, the stored volumes follow the radii.
\<close>

definition syncVolumes :: "mech \<Rightarrow> mech" where
  "syncVolumes s =
     (if \<not> animating s
      then s\<lparr>v1 := (4 / 3) * pi * Math_pow (r1 s) 3,
             v2 := (4 / 3) * pi * Math_pow (r2 s) 3\<rparr>
      else s)"

text \<open>The locals of \<^verbatim>\<open>step\<close>, in the order the source computes them.\<close>

definition safeV1 :: "mech \<Rightarrow> real" where
  "safeV1 s = max 0.0001 (v1 s)"

definition safeV2 :: "mech \<Rightarrow> real" where
  "safeV2 s = max 0.0001 (v2 s)"

definition curR1 :: "mech \<Rightarrow> real" where
  "curR1 s = Math_pow ((3 * safeV1 s) / (4 * pi)) (1 / 3)"

definition curR2 :: "mech \<Rightarrow> real" where
  "curR2 s = Math_pow ((3 * safeV2 s) / (4 * pi)) (1 / 3)"

text \<open>The test of the terminal branch: \<^verbatim>\<open>curR1 < 0.2 || curR2 < 0.2\<close>.\<close>

definition collapsed :: "mech \<Rightarrow> bool" where
  "collapsed s = (curR1 s < 0.2 \<or> curR2 s < 0.2)"

definition p1 :: "mech \<Rightarrow> real" where
  "p1 s = (2 * SURFACE_TENSION) / curR1 s"

definition p2 :: "mech \<Rightarrow> real" where
  "p2 s = (2 * SURFACE_TENSION) / curR2 s"

definition flow :: "mech \<Rightarrow> real" where
  "flow s = (p1 s - p2 s) * FLOW_RATE_CONSTANT"

definition newV1 :: "mech \<Rightarrow> real" where
  "newV1 s = v1 s - flow s"

definition newV2 :: "mech \<Rightarrow> real" where
  "newV2 s = v2 s + flow s"

text \<open>
  One call of \<^verbatim>\<open>step\<close>. The state setters of the call are applied to the state it
  returns; in the terminal branch \<^verbatim>\<open>setAnimating(true)\<close> is overwritten by
  \<^verbatim>\<open>setAnimating(false)\<close> before the function returns.
\<close>

definition step :: "mech \<Rightarrow> mech" where
  "step s =
     (if valveOpen s then
        (if collapsed s then s\<lparr>valveOpen := False, animating := False\<rparr>
         else s\<lparr>animating := True,
                v1 := newV1 s,
                v2 := newV2 s,
                r1 := Math_pow ((3 * max 0.0001 (newV1 s)) / (4 * pi)) (1 / 3),
                r2 := Math_pow ((3 * max 0.0001 (newV2 s)) / (4 * pi)) (1 / 3)\<rparr>)
      else s\<lparr>animating := False\<rparr>)"

text \<open>
  The animation loop calls \<^verbatim>\<open>step\<close> once per frame; \<open>steps n\<close> is the state after
  \<open>n\<close> frames.
\<close>

fun steps :: "nat \<Rightarrow> mech \<Rightarrow> mech" where
  "steps 0 s = s"
| "steps (Suc n) s = steps n (step s)"

text \<open>
  \<open>alive n s\<close>: each of the next \<open>n\<close> calls finds the valve open and does not take the
  terminal branch.
\<close>

fun alive :: "nat \<Rightarrow> mech \<Rightarrow> bool" where
  "alive 0 s = True"
| "alive (Suc n) s = (valveOpen s \<and> \<not> collapsed s \<and> alive n (step s))"

text \<open>
  The state in which the loop starts: the sliders hold \<open>ra\<close> and \<open>rb\<close>, no animation
  runs, the first effect has stored the two volumes, and the valve button was pressed.
\<close>

definition opened :: "real \<Rightarrow> real \<Rightarrow> mech" where
  "opened ra rb =
     (syncVolumes \<lparr>r1 = ra, r2 = rb, valveOpen = False, animating = False, v1 = 0, v2 = 0\<rparr>)
       \<lparr>valveOpen := True\<rparr>"

text \<open>The pressures shown beside the bubbles (computed on every render).\<close>

definition render_p1 :: "mech \<Rightarrow> real" where
  "render_p1 s = (2 * SURFACE_TENSION) / max 0.1 (r1 s)"

definition render_p2 :: "mech \<Rightarrow> real" where
  "render_p2 s = (2 * SURFACE_TENSION) / max 0.1 (r2 s)"

text \<open>
  The quotient \<^verbatim>\<open>(2 * SURFACE_TENSION) / _\<close> that the four pressure expressions share, as a
  function of the radius it divides by.
\<close>

definition pressure :: "real \<Rightarrow> real" where
  "pressure r = (2 * SURFACE_TENSION) / r"

section \<open>Experiment 1: the handlers\<close>

text \<open>
  The valve button toggles \<^verbatim>\<open>valveOpen\<close>; a slider closes the valve and sets its radius.
  After each of them the component renders and the first effect runs (\<open>syncVolumes\<close>).
  When the button closes the valve, the pending frame is cancelled and no further one is
  requested, so \<^verbatim>\<open>step\<close> is not called again and its last branch does not run.
\<close>

definition clickValve :: "mech \<Rightarrow> mech" where
  "clickValve s = s\<lparr>valveOpen := \<not> valveOpen s\<rparr>"

definition changeR1 :: "real \<Rightarrow> mech \<Rightarrow> mech" where
  "changeR1 v s = s\<lparr>valveOpen := False, r1 := v\<rparr>"

definition changeR2 :: "real \<Rightarrow> mech \<Rightarrow> mech" where
  "changeR2 v s = s\<lparr>valveOpen := False, r2 := v\<rparr>"

text \<open>The direction in which the air particles are drawn, \<^verbatim>\<open>flowDir\<close>.\<close>

datatype direction = Dir_none | Dir_right | Dir_left

definition flowDir :: "mech \<Rightarrow> direction" where
  "flowDir s =
     (if \<bar>r1 s - r2 s\<bar> < 0.01 then Dir_none
      else if r1 s < r2 s then Dir_right else Dir_left)"

text \<open>
  A session at the controls: sliders at 2.0 and 1.0, valve opened, one frame, valve
  button pressed again, slider A moved to 0.5, slider B moved to 1.5, valve opened.
\<close>

definition reopened :: mech where
  "reopened =
     clickValve (syncVolumes (changeR2 1.5 (syncVolumes (changeR1 0.5
       (syncVolumes (clickValve (step (opened 2 1))))))))"

section \<open>Experiment 1 in double precision\<close>

text \<open>
  \<open>fl\<close> rounds a real number to the nearest number with a 53 bit significand, ties to
  the even significand, as every arithmetic operation on doubles does. The exponent is
  not bounded: overflow and subnormal numbers are not modelled (the volumes, radii and
  pressures of this widget stay between 0.0001 and a few thousand).
\<close>

definition round_even :: "real \<Rightarrow> int" where
  "round_even z =
     (let n = \<lfloor>z\<rfloor>; d = z - of_int n in
      if d < 1 / 2 then n else if 1 / 2 < d then n + 1 else if even n then n else n + 1)"

definition fl :: "real \<Rightarrow> real" where
  "fl a =
     (if a = 0 then 0
      else (let e = \<lfloor>log 2 \<bar>a\<bar>\<rfloor> - 52
            in of_int (round_even (a / 2 powr of_int e)) * 2 powr of_int e))"

text \<open>\<^verbatim>\<open>Math.PI\<close>, the double nearest to \<open>pi\<close>: \<^verbatim>\<open>0x1.921fb54442d18p+1\<close>.\<close>

definition Math_PI :: real where
  "Math_PI = 884279719003555 / 281474976710656"

text \<open>
  The language leaves the last bit of \<^verbatim>\<open>Math.pow\<close> to the engine, so the double model
  takes the engine's function as its parameter \<open>pw\<close>. \<open>pow_cr\<close> is the correctly rounded
  one.
\<close>

definition pow_cr :: "real \<Rightarrow> real \<Rightarrow> real" where
  "pow_cr b e = fl (b powr e)"

text \<open>
  The first effect and \<^verbatim>\<open>step\<close> once more, operation by operation: every product,
  quotient, sum and difference is rounded, and a decimal literal is the double nearest
  to it.
\<close>

definition syncVolumes_d :: "(real \<Rightarrow> real \<Rightarrow> real) \<Rightarrow> mech \<Rightarrow> mech" where
  "syncVolumes_d pw s =
     (if \<not> animating s
      then s\<lparr>v1 := fl (fl (fl (4 / 3) * Math_PI) * pw (r1 s) 3),
             v2 := fl (fl (fl (4 / 3) * Math_PI) * pw (r2 s) 3)\<rparr>
      else s)"

definition safeV1_d :: "mech \<Rightarrow> real" where
  "safeV1_d s = max (fl 0.0001) (v1 s)"

definition safeV2_d :: "mech \<Rightarrow> real" where
  "safeV2_d s = max (fl 0.0001) (v2 s)"

definition curR1_d :: "(real \<Rightarrow> real \<Rightarrow> real) \<Rightarrow> mech \<Rightarrow> real" where
  "curR1_d pw s = pw (fl (fl (3 * safeV1_d s) / fl (4 * Math_PI))) (fl (1 / 3))"

definition curR2_d :: "(real \<Rightarrow> real \<Rightarrow> real) \<Rightarrow> mech \<Rightarrow> real" where
  "curR2_d pw s = pw (fl (fl (3 * safeV2_d s) / fl (4 * Math_PI))) (fl (1 / 3))"

definition collapsed_d :: "(real \<Rightarrow> real \<Rightarrow> real) \<Rightarrow> mech \<Rightarrow> bool" where
  "collapsed_d pw s = (curR1_d pw s < fl 0.2 \<or> curR2_d pw s < fl 0.2)"

definition p1_d :: "(real \<Rightarrow> real \<Rightarrow> real) \<Rightarrow> mech \<Rightarrow> real" where
  "p1_d pw s = fl (fl (2 * SURFACE_TENSION) / curR1_d pw s)"

definition p2_d :: "(real \<Rightarrow> real \<Rightarrow> real) \<Rightarrow> mech \<Rightarrow> real" where
  "p2_d pw s = fl (fl (2 * SURFACE_TENSION) / curR2_d pw s)"

definition flow_d :: "(real \<Rightarrow> real \<Rightarrow> real) \<Rightarrow> mech \<Rightarrow> real" where
  "flow_d pw s = fl (fl (p1_d pw s - p2_d pw s) * fl FLOW_RATE_CONSTANT)"

definition newV1_d :: "(real \<Rightarrow> real \<Rightarrow> real) \<Rightarrow> mech \<Rightarrow> real" where
  "newV1_d pw s = fl (v1 s - flow_d pw s)"

definition newV2_d :: "(real \<Rightarrow> real \<Rightarrow> real) \<Rightarrow> mech \<Rightarrow> real" where
  "newV2_d pw s = fl (v2 s + flow_d pw s)"

definition step_d :: "(real \<Rightarrow> real \<Rightarrow> real) \<Rightarrow> mech \<Rightarrow> mech" where
  "step_d pw s =
     (if valveOpen s then
        (if collapsed_d pw s then s\<lparr>valveOpen := False, animating := False\<rparr>
         else s\<lparr>animating := True,
                v1 := newV1_d pw s,
                v2 := newV2_d pw s,
                r1 := pw (fl (fl (3 * max (fl 0.0001) (newV1_d pw s)) / fl (4 * Math_PI)))
                        (fl (1 / 3)),
                r2 := pw (fl (fl (3 * max (fl 0.0001) (newV2_d pw s)) / fl (4 * Math_PI)))
                        (fl (1 / 3))\<rparr>)
      else s\<lparr>animating := False\<rparr>)"

fun steps_d :: "(real \<Rightarrow> real \<Rightarrow> real) \<Rightarrow> nat \<Rightarrow> mech \<Rightarrow> mech" where
  "steps_d pw 0 s = s"
| "steps_d pw (Suc n) s = steps_d pw n (step_d pw s)"

fun alive_d :: "(real \<Rightarrow> real \<Rightarrow> real) \<Rightarrow> nat \<Rightarrow> mech \<Rightarrow> bool" where
  "alive_d pw 0 s = True"
| "alive_d pw (Suc n) s = (valveOpen s \<and> \<not> collapsed_d pw s \<and> alive_d pw n (step_d pw s))"

definition opened_d :: "(real \<Rightarrow> real \<Rightarrow> real) \<Rightarrow> real \<Rightarrow> real \<Rightarrow> mech" where
  "opened_d pw ra rb =
     (syncVolumes_d pw
        \<lparr>r1 = ra, r2 = rb, valveOpen = False, animating = False, v1 = 0, v2 = 0\<rparr>)
       \<lparr>valveOpen := True\<rparr>"

text \<open>
  The rounding a step can add to the sum of the two stored volumes: half a unit in the
  last place of each of the two results.
\<close>

definition rounding_slack :: "(real \<Rightarrow> real \<Rightarrow> real) \<Rightarrow> mech \<Rightarrow> real" where
  "rounding_slack pw s = (\<bar>v1 s - flow_d pw s\<bar> + \<bar>v2 s + flow_d pw s\<bar>) / 2 ^ 53"

section \<open>Experiment 2: geometry (Plateau's problem)\<close>

record point =
  x :: real
  y :: real

text \<open>The constants of \<^verbatim>\<open>GeometryExperiment\<close>; \<^verbatim>\<open>p.tl\<close> is \<open>p_tl\<close>, and so on.\<close>

definition size_px :: real where
  "size_px = 200"

definition p_tl :: point where
  "p_tl = \<lparr>x = 50, y = 50\<rparr>"

definition p_tr :: point where
  "p_tr = \<lparr>x = 250, y = 50\<rparr>"

definition p_bl :: point where
  "p_bl = \<lparr>x = 50, y = 250\<rparr>"

definition p_br :: point where
  "p_br = \<lparr>x = 250, y = 250\<rparr>"

definition sideLength :: real where
  "sideLength = 1.0"

definition lenDirect :: real where
  "lenDirect = 2 * sqrt 2 * sideLength"

definition lenSoap :: real where
  "lenSoap = sideLength * (1 + sqrt 3)"

definition offset :: real where
  "offset = 100 / sqrt 3"

definition sp1 :: point where
  "sp1 = \<lparr>x = 150, y = 50 + offset\<rparr>"

definition sp2 :: point where
  "sp2 = \<lparr>x = 150, y = 250 - offset\<rparr>"

text \<open>
  The lines the component draws, as pairs of end points: the two diagonals in direct
  mode, the five film segments in soap mode.
\<close>

definition direct_lines :: "(point \<times> point) list" where
  "direct_lines = [(p_tl, p_br), (p_tr, p_bl)]"

definition soap_lines :: "(point \<times> point) list" where
  "soap_lines = [(p_tl, sp1), (p_tr, sp1), (sp1, sp2), (p_bl, sp2), (p_br, sp2)]"

text \<open>
  Plane geometry for the claims: the length of a segment, the total length of a list of
  lines, and the angle at \<open>j\<close> between the segments to \<open>a\<close> and to \<open>b\<close> (in radians, from
  the scalar product).
\<close>

definition seg_len :: "point \<Rightarrow> point \<Rightarrow> real" where
  "seg_len a b = sqrt ((x a - x b)\<^sup>2 + (y a - y b)\<^sup>2)"

definition total_len :: "(point \<times> point) list \<Rightarrow> real" where
  "total_len ls = sum_list (map (\<lambda>(a, b). seg_len a b) ls)"

definition dot_at :: "point \<Rightarrow> point \<Rightarrow> point \<Rightarrow> real" where
  "dot_at j a b = (x a - x j) * (x b - x j) + (y a - y j) * (y b - y j)"

definition angle_at :: "point \<Rightarrow> point \<Rightarrow> point \<Rightarrow> real" where
  "angle_at j a b = arccos (dot_at j a b / (seg_len j a * seg_len j b))"

section \<open>Experiment 3: optics (interference)\<close>

text \<open>
  \<^verbatim>\<open>interferenceColor\<close> returns a CSS colour, the string \<^verbatim>\<open>rgb(r, g, b)\<close>; the comparisons
  run top to bottom and the first that holds decides.
\<close>

definition interferenceColor :: "real \<Rightarrow> string" where
  "interferenceColor thickness =
     (let t = max 0 thickness in
      if t < 30 then ''rgb(20, 20, 20)''
      else if t < 120 then ''rgb(240, 240, 250)''
      else if t < 250 then ''rgb(255, 220, 100)''
      else if t < 350 then ''rgb(200, 50, 255)''
      else if t < 450 then ''rgb(50, 100, 255)''
      else if t < 550 then ''rgb(50, 255, 150)''
      else if t < 650 then ''rgb(255, 255, 50)''
      else if t < 800 then ''rgb(255, 100, 100)''
      else ''rgb(100, 200, 200)'')"

section \<open>Facts about experiment 1\<close>

subsection \<open>Cube roots\<close>

lemma Math_pow_cube_root: "0 \<le> r \<Longrightarrow> Math_pow (r ^ 3) (1 / 3) = r"
proof (cases "r = 0")
  case True
  then show ?thesis by (simp add: Math_pow_def)
next
  case False
  assume "0 \<le> r"
  with False have pos: "0 < r" by simp
  then have "(r ^ 3) powr (1 / 3) = (r powr 3) powr (1 / 3)"
    by (simp add: powr_numeral)
  also have "\<dots> = r powr 1"
    by (simp add: powr_powr)
  finally show ?thesis
    using pos by (simp add: Math_pow_def)
qed

lemma Math_pow_3: "0 < r \<Longrightarrow> Math_pow r 3 = r ^ 3"
  by (simp add: Math_pow_def powr_numeral)

lemma Math_pow_mono:
  "0 \<le> a \<Longrightarrow> a \<le> b \<Longrightarrow> Math_pow a (1 / 3) \<le> Math_pow b (1 / 3)"
  by (simp add: Math_pow_def powr_mono2)

lemma Math_pow_less_iff:
  assumes "0 \<le> a" and "0 \<le> b"
  shows "Math_pow a (1 / 3) < Math_pow b (1 / 3) \<longleftrightarrow> a < b"
proof
  assume "a < b"
  with assms show "Math_pow a (1 / 3) < Math_pow b (1 / 3)"
    by (simp add: Math_pow_def powr_less_mono2)
next
  assume less: "Math_pow a (1 / 3) < Math_pow b (1 / 3)"
  show "a < b"
  proof (rule ccontr)
    assume "\<not> a < b"
    then have "b \<le> a" by simp
    with assms have "Math_pow b (1 / 3) \<le> Math_pow a (1 / 3)"
      by (simp add: Math_pow_mono)
    with less show False by simp
  qed
qed

lemma radius_of_volume:
  "0 \<le> r \<Longrightarrow> Math_pow ((3 * ((4 / 3) * pi * r ^ 3)) / (4 * pi)) (1 / 3) = r"
proof -
  assume r: "0 \<le> r"
  have "(3 * ((4 / 3) * pi * r ^ 3)) / (4 * pi) = r ^ 3"
    by simp
  with r show ?thesis
    by (simp only: Math_pow_cube_root)
qed

subsection \<open>The locals of step\<close>

lemma safeV1_pos: "0 < safeV1 s"
  by (simp add: safeV1_def max_def)

lemma safeV2_pos: "0 < safeV2 s"
  by (simp add: safeV2_def max_def)

lemma curR1_pos: "0 < curR1 s"
  using safeV1_pos [of s] by (simp add: curR1_def Math_pow_def)

lemma curR2_pos: "0 < curR2 s"
  using safeV2_pos [of s] by (simp add: curR2_def Math_pow_def)

text \<open>The floor on the radius is a floor on the volume.\<close>

lemma floor_radius: "Math_pow (8 / 1000) (1 / 3) = 0.2"
proof -
  have "Math_pow ((2 / 10) ^ 3) (1 / 3) = 2 / 10"
    by (rule Math_pow_cube_root) simp
  then show ?thesis by (simp add: power3_eq_cube)
qed

lemma curR1_below_floor: "curR1 s < 0.2 \<longleftrightarrow> safeV1 s < (4 / 3) * pi * 0.2 ^ 3"
proof -
  have "curR1 s < 0.2 \<longleftrightarrow> (3 * safeV1 s) / (4 * pi) < 8 / 1000"
    unfolding curR1_def floor_radius [symmetric]
    using safeV1_pos [of s] by (intro Math_pow_less_iff) simp_all
  also have "\<dots> \<longleftrightarrow> safeV1 s < (4 / 3) * pi * 0.2 ^ 3"
    by (simp add: field_simps power3_eq_cube)
  finally show ?thesis .
qed

lemma curR2_below_floor: "curR2 s < 0.2 \<longleftrightarrow> safeV2 s < (4 / 3) * pi * 0.2 ^ 3"
proof -
  have "curR2 s < 0.2 \<longleftrightarrow> (3 * safeV2 s) / (4 * pi) < 8 / 1000"
    unfolding curR2_def floor_radius [symmetric]
    using safeV2_pos [of s] by (intro Math_pow_less_iff) simp_all
  also have "\<dots> \<longleftrightarrow> safeV2 s < (4 / 3) * pi * 0.2 ^ 3"
    by (simp add: field_simps power3_eq_cube)
  finally show ?thesis .
qed

subsection \<open>The three branches of step\<close>

lemma step_live:
  "valveOpen s \<Longrightarrow> \<not> collapsed s \<Longrightarrow>
     step s = s\<lparr>animating := True, v1 := newV1 s, v2 := newV2 s,
                r1 := Math_pow ((3 * max 0.0001 (newV1 s)) / (4 * pi)) (1 / 3),
                r2 := Math_pow ((3 * max 0.0001 (newV2 s)) / (4 * pi)) (1 / 3)\<rparr>"
  by (simp add: step_def)

lemma step_terminal:
  "valveOpen s \<Longrightarrow> collapsed s \<Longrightarrow> step s = s\<lparr>valveOpen := False, animating := False\<rparr>"
  by (simp add: step_def)

lemma step_closed: "\<not> valveOpen s \<Longrightarrow> step s = s\<lparr>animating := False\<rparr>"
  by (simp add: step_def)

lemma step_total_volume: "v1 (step s) + v2 (step s) = v1 s + v2 s"
  by (simp add: step_def newV1_def newV2_def)

lemma steps_Suc_right: "steps (Suc n) s = step (steps n s)"
  by (induction n arbitrary: s) simp_all

lemma steps_total_volume: "v1 (steps n s) + v2 (steps n s) = v1 s + v2 s"
  by (induction n arbitrary: s) (simp_all add: step_total_volume)

lemma alive_last: "alive (Suc n) s \<Longrightarrow> valveOpen (steps n s) \<and> \<not> collapsed (steps n s)"
  by (induction n arbitrary: s) simp_all

lemma alive_Suc_D: "alive (Suc n) s \<Longrightarrow> alive n s"
  by (induction n arbitrary: s) simp_all

subsection \<open>Radii shown and radii used\<close>

lemma step_r1_curR1: "valveOpen s \<Longrightarrow> \<not> collapsed s \<Longrightarrow> r1 (step s) = curR1 (step s)"
  by (simp add: step_live curR1_def safeV1_def)

lemma step_r2_curR2: "valveOpen s \<Longrightarrow> \<not> collapsed s \<Longrightarrow> r2 (step s) = curR2 (step s)"
  by (simp add: step_live curR2_def safeV2_def)

lemma slider_volume:
  assumes "0.3 \<le> r"
  shows "0.0001 \<le> (4 / 3) * pi * r ^ 3"
proof -
  have "(0.3::real) ^ 3 \<le> r ^ 3"
    using assms by (intro power_mono) simp_all
  then have cube: "0.027 \<le> r ^ 3"
    by (simp add: power3_eq_cube)
  have "2 * 0.027 \<le> pi * r ^ 3"
    using pi_ge_two cube by (intro mult_mono) simp_all
  then show ?thesis by simp
qed

lemma curR1_opened: "0.3 \<le> ra \<Longrightarrow> curR1 (opened ra rb) = ra"
proof -
  assume ra: "0.3 \<le> ra"
  then have pos: "0 < ra" by simp
  have "v1 (opened ra rb) = (4 / 3) * pi * ra ^ 3"
    using pos by (simp add: opened_def syncVolumes_def Math_pow_3)
  then have "safeV1 (opened ra rb) = (4 / 3) * pi * ra ^ 3"
    using slider_volume [OF ra] by (simp add: safeV1_def max_def)
  then show ?thesis
    using pos by (simp only: curR1_def radius_of_volume)
qed

lemma curR2_opened: "0.3 \<le> rb \<Longrightarrow> curR2 (opened ra rb) = rb"
proof -
  assume rb: "0.3 \<le> rb"
  then have pos: "0 < rb" by simp
  have "v2 (opened ra rb) = (4 / 3) * pi * rb ^ 3"
    using pos by (simp add: opened_def syncVolumes_def Math_pow_3)
  then have "safeV2 (opened ra rb) = (4 / 3) * pi * rb ^ 3"
    using slider_volume [OF rb] by (simp add: safeV2_def max_def)
  then show ?thesis
    using pos by (simp only: curR2_def radius_of_volume)
qed

lemma valveOpen_opened: "valveOpen (opened ra rb)"
  by (simp add: opened_def syncVolumes_def)

lemma r1_opened: "r1 (opened ra rb) = ra"
  by (simp add: opened_def syncVolumes_def)

lemma r2_opened: "r2 (opened ra rb) = rb"
  by (simp add: opened_def syncVolumes_def)

lemma not_collapsed_opened: "0.3 \<le> ra \<Longrightarrow> 0.3 \<le> rb \<Longrightarrow> \<not> collapsed (opened ra rb)"
  by (simp add: collapsed_def curR1_opened curR2_opened)

lemma collapsed_iff_volume:
  "collapsed s \<longleftrightarrow>
     safeV1 s < (4 / 3) * pi * 0.2 ^ 3 \<or> safeV2 s < (4 / 3) * pi * 0.2 ^ 3"
  by (simp only: collapsed_def curR1_below_floor curR2_below_floor)

subsection \<open>Two runs used as examples\<close>

lemma opened_1_2:
  "curR1 (opened 1 2) = 1" "curR2 (opened 1 2) = 2"
  "v1 (opened 1 2) = (4 / 3) * pi" "v2 (opened 1 2) = (32 / 3) * pi"
  by (simp_all add: curR1_opened curR2_opened)
     (simp_all add: opened_def syncVolumes_def Math_pow_3)

lemma flow_opened_1_2: "flow (opened 1 2) = 0.025"
  by (simp add: flow_def p1_def p2_def opened_1_2 SURFACE_TENSION_def FLOW_RATE_CONSTANT_def)

lemma live_opened_1_2: "valveOpen (opened 1 2) \<and> \<not> collapsed (opened 1 2)"
  by (simp add: valveOpen_opened not_collapsed_opened)

lemma step_opened_1_2:
  "v1 (step (opened 1 2)) = (4 / 3) * pi - 0.025"
  "v2 (step (opened 1 2)) = (32 / 3) * pi + 0.025"
  "valveOpen (step (opened 1 2))"
  using live_opened_1_2
  by (simp_all add: step_live newV1_def newV2_def flow_opened_1_2 opened_1_2 valveOpen_opened)

lemma not_collapsed_step_opened_1_2: "\<not> collapsed (step (opened 1 2))"
proof -
  have "(4 / 3) * pi * 0.2 ^ 3 \<le> (4 / 3) * pi - 0.025"
    using pi_ge_two by (simp add: power3_eq_cube)
  then have "(4 / 3) * pi * 0.2 ^ 3 \<le> safeV1 (step (opened 1 2))"
    unfolding safeV1_def step_opened_1_2 by (rule max.coboundedI2)
  moreover have "(4 / 3) * pi * 0.2 ^ 3 \<le> (32 / 3) * pi + 0.025"
    using pi_ge_two by (simp add: power3_eq_cube)
  then have "(4 / 3) * pi * 0.2 ^ 3 \<le> safeV2 (step (opened 1 2))"
    unfolding safeV2_def step_opened_1_2 by (rule max.coboundedI2)
  ultimately show ?thesis
    unfolding collapsed_iff_volume by (simp only: not_less de_Morgan_disj simp_thms)
qed

lemma alive_2_opened_1_2: "alive (Suc (Suc 0)) (opened 1 2)"
  using live_opened_1_2 not_collapsed_step_opened_1_2
  by (simp add: step_opened_1_2)

lemma opened_1_1:
  "curR1 (opened 1 1) = 1" "curR2 (opened 1 1) = 1"
  by (simp_all add: curR1_opened curR2_opened)

lemma live_opened_1_1: "valveOpen (opened 1 1) \<and> \<not> collapsed (opened 1 1)"
  by (simp add: valveOpen_opened not_collapsed_opened)

subsection \<open>Direction of the flow\<close>

lemma flow_pos: "curR1 s < curR2 s \<Longrightarrow> 0 < flow s"
proof -
  assume less: "curR1 s < curR2 s"
  have "1 / curR2 s < 1 / curR1 s"
    using less curR1_pos [of s] by (simp add: frac_less2)
  then have "p2 s < p1 s"
    by (simp add: p1_def p2_def SURFACE_TENSION_def)
  then show ?thesis
    by (simp add: flow_def FLOW_RATE_CONSTANT_def)
qed

lemma flow_zero: "curR1 s = curR2 s \<Longrightarrow> flow s = 0"
  by (simp add: flow_def p1_def p2_def)

lemma step_keeps_less:
  assumes "valveOpen s" and "\<not> collapsed s" and less: "curR1 s < curR2 s"
  shows "curR1 (step s) < curR2 (step s)"
proof -
  have f: "0 < flow s"
    using less by (rule flow_pos)
  have "safeV1 (step s) \<le> safeV1 s"
    using assms f by (simp add: step_live safeV1_def newV1_def max_def)
  then have "curR1 (step s) \<le> curR1 s"
    unfolding curR1_def using safeV1_pos [of "step s"]
    by (intro Math_pow_mono) (simp_all add: divide_right_mono)
  moreover have "safeV2 s \<le> safeV2 (step s)"
    using assms f by (simp add: step_live safeV2_def newV2_def max_def)
  then have "curR2 s \<le> curR2 (step s)"
    unfolding curR2_def using safeV2_pos [of s]
    by (intro Math_pow_mono) (simp_all add: divide_right_mono)
  ultimately show ?thesis
    using less by simp
qed

lemma step_keeps_equal:
  assumes "curR1 s = curR2 s"
  shows "curR1 (step s) = curR2 (step s)"
proof -
  have "flow s = 0"
    using assms by (rule flow_zero)
  then have "v1 (step s) = v1 s" and "v2 (step s) = v2 s"
    by (simp_all add: step_def newV1_def newV2_def)
  then have "curR1 (step s) = curR1 s" and "curR2 (step s) = curR2 s"
    by (simp_all add: curR1_def curR2_def safeV1_def safeV2_def)
  with assms show ?thesis by simp
qed

lemma steps_keep_less:
  "alive n s \<Longrightarrow> curR1 s < curR2 s \<Longrightarrow> curR1 (steps n s) < curR2 (steps n s)"
  by (induction n arbitrary: s) (simp_all add: step_keeps_less)

lemma steps_keep_equal:
  "curR1 s = curR2 s \<Longrightarrow> curR1 (steps n s) = curR2 (steps n s)"
  by (induction n arbitrary: s) (simp_all add: step_keeps_equal)

subsection \<open>A run that collapses\<close>

lemma opened_03_2:
  "curR1 (opened 0.3 2) = 0.3" "curR2 (opened 0.3 2) = 2"
  "v1 (opened 0.3 2) = (4 / 3) * pi * 0.027" "v2 (opened 0.3 2) = (32 / 3) * pi"
  by (simp_all add: curR1_opened curR2_opened)
     (simp_all add: opened_def syncVolumes_def Math_pow_3 power3_eq_cube)

lemma flow_opened_03_2: "flow (opened 0.3 2) = 17 / 120"
  by (simp add: flow_def p1_def p2_def opened_03_2 SURFACE_TENSION_def FLOW_RATE_CONSTANT_def)

lemma live_opened_03_2: "valveOpen (opened 0.3 2) \<and> \<not> collapsed (opened 0.3 2)"
  by (simp add: valveOpen_opened not_collapsed_opened)

lemma step_opened_03_2:
  "v1 (step (opened 0.3 2)) = (4 / 3) * pi * 0.027 - 17 / 120"
  "v2 (step (opened 0.3 2)) = (32 / 3) * pi + 17 / 120"
  "valveOpen (step (opened 0.3 2))"
  "r1 (step (opened 0.3 2)) = curR1 (step (opened 0.3 2))"
  "r2 (step (opened 0.3 2)) = curR2 (step (opened 0.3 2))"
  using live_opened_03_2
  by (simp_all add: step_r1_curR1 step_r2_curR2)
     (simp_all add: step_live newV1_def newV2_def flow_opened_03_2 opened_03_2 valveOpen_opened)

lemma safeV1_step_opened_03_2: "safeV1 (step (opened 0.3 2)) < (4 / 3) * pi * 0.1 ^ 3"
proof -
  have "(4 / 3) * pi * 0.027 - 17 / 120 < (4 / 3) * pi * 0.1 ^ 3"
    using pi_less_4 by (simp add: power3_eq_cube)
  moreover have "0.0001 < (4 / 3) * pi * 0.1 ^ 3"
    using pi_ge_two by (simp add: power3_eq_cube)
  ultimately show ?thesis
    unfolding safeV1_def step_opened_03_2 by (simp only: max_less_iff_conj simp_thms)
qed

lemma collapsed_step_opened_03_2: "collapsed (step (opened 0.3 2))"
proof -
  have "(4 / 3) * pi * 0.1 ^ 3 \<le> (4 / 3) * pi * 0.2 ^ 3"
    by (simp add: power3_eq_cube)
  with safeV1_step_opened_03_2 have "safeV1 (step (opened 0.3 2)) < (4 / 3) * pi * 0.2 ^ 3"
    by (rule less_le_trans)
  then show ?thesis
    unfolding collapsed_iff_volume by (rule disjI1)
qed

lemma tenth_radius: "Math_pow (1 / 1000) (1 / 3) = 0.1"
proof -
  have "Math_pow ((1 / 10) ^ 3) (1 / 3) = 1 / 10"
    by (rule Math_pow_cube_root) simp
  then show ?thesis by (simp add: power3_eq_cube)
qed

lemma r1_step_opened_03_2:
  "0 < r1 (step (opened 0.3 2))" "r1 (step (opened 0.3 2)) < 0.1"
proof -
  show "0 < r1 (step (opened 0.3 2))"
    by (simp only: step_opened_03_2 curR1_pos)
  have "(3 * safeV1 (step (opened 0.3 2))) / (4 * pi) < 1 / 1000"
    using safeV1_step_opened_03_2 by (simp add: field_simps power3_eq_cube)
  then have "curR1 (step (opened 0.3 2)) < 0.1"
    unfolding curR1_def tenth_radius [symmetric]
    using safeV1_pos [of "step (opened 0.3 2)"] by (subst Math_pow_less_iff) simp_all
  then show "r1 (step (opened 0.3 2)) < 0.1"
    by (simp only: step_opened_03_2)
qed

subsection \<open>Pressure and closed valve\<close>

lemma pressure_antimono: "0 < ra \<Longrightarrow> ra < rb \<Longrightarrow> pressure rb < pressure ra"
  by (simp add: pressure_def SURFACE_TENSION_def frac_less2)

lemma steps_closed:
  "\<not> valveOpen s \<Longrightarrow>
     r1 (steps n s) = r1 s \<and> r2 (steps n s) = r2 s \<and>
     v1 (steps n s) = v1 s \<and> v2 (steps n s) = v2 s \<and> \<not> valveOpen (steps n s)"
  by (induction n arbitrary: s) (simp_all add: step_closed)

subsection \<open>A session that leaves the volumes stale\<close>

lemma opened_2_1:
  "curR1 (opened 2 1) = 2" "curR2 (opened 2 1) = 1"
  "v1 (opened 2 1) = (32 / 3) * pi" "v2 (opened 2 1) = (4 / 3) * pi"
  by (simp_all add: curR1_opened curR2_opened)
     (simp_all add: opened_def syncVolumes_def Math_pow_3)

lemma flow_opened_2_1: "flow (opened 2 1) = - 0.025"
  by (simp add: flow_def p1_def p2_def opened_2_1 SURFACE_TENSION_def FLOW_RATE_CONSTANT_def)

lemma step_opened_2_1:
  "v1 (step (opened 2 1)) = (32 / 3) * pi + 0.025"
  "v2 (step (opened 2 1)) = (4 / 3) * pi - 0.025"
  "animating (step (opened 2 1))"
  "valveOpen (step (opened 2 1))"
proof -
  have live: "valveOpen (opened 2 1)" "\<not> collapsed (opened 2 1)"
    by (simp_all add: valveOpen_opened not_collapsed_opened)
  then show "v1 (step (opened 2 1)) = (32 / 3) * pi + 0.025"
    "v2 (step (opened 2 1)) = (4 / 3) * pi - 0.025"
    "animating (step (opened 2 1))" "valveOpen (step (opened 2 1))"
    by (simp_all add: step_live newV1_def newV2_def flow_opened_2_1 opened_2_1)
qed

lemma reopened_fields:
  "r1 reopened = 0.5" "r2 reopened = 1.5" "valveOpen reopened" "animating reopened"
  "v1 reopened = (32 / 3) * pi + 0.025" "v2 reopened = (4 / 3) * pi - 0.025"
  by (simp_all add: reopened_def clickValve_def changeR1_def changeR2_def syncVolumes_def
      step_opened_2_1)

lemma flow_neg: "curR2 s < curR1 s \<Longrightarrow> flow s < 0"
proof -
  assume less: "curR2 s < curR1 s"
  have "1 / curR1 s < 1 / curR2 s"
    using less curR2_pos [of s] by (simp add: frac_less2)
  then have "p1 s < p2 s"
    by (simp add: p1_def p2_def SURFACE_TENSION_def)
  then show ?thesis
    by (simp add: flow_def FLOW_RATE_CONSTANT_def mult_less_0_iff)
qed

lemma safeV_reopened:
  "safeV1 reopened = (32 / 3) * pi + 0.025" "safeV2 reopened = (4 / 3) * pi - 0.025"
proof -
  have "0.0001 \<le> (32 / 3) * pi + 0.025"
    using pi_ge_two by simp
  then show "safeV1 reopened = (32 / 3) * pi + 0.025"
    by (simp only: safeV1_def reopened_fields max_absorb2)
  have "0.0001 \<le> (4 / 3) * pi - 0.025"
    using pi_ge_two by simp
  then show "safeV2 reopened = (4 / 3) * pi - 0.025"
    by (simp only: safeV2_def reopened_fields max_absorb2)
qed

lemma not_collapsed_reopened: "\<not> collapsed reopened"
proof -
  have "(4 / 3) * pi * 0.2 ^ 3 \<le> (32 / 3) * pi + 0.025"
    using pi_ge_two by (simp add: power3_eq_cube)
  moreover have "(4 / 3) * pi * 0.2 ^ 3 \<le> (4 / 3) * pi - 0.025"
    using pi_ge_two by (simp add: power3_eq_cube)
  ultimately show ?thesis
    unfolding collapsed_iff_volume safeV_reopened
    by (simp only: not_less de_Morgan_disj simp_thms)
qed

lemma curR_reopened: "curR2 reopened < curR1 reopened"
proof -
  have "3 * ((4 / 3) * pi - 0.025) < 3 * ((32 / 3) * pi + 0.025)"
    using pi_ge_two by simp
  then have "(3 * ((4 / 3) * pi - 0.025)) / (4 * pi) < (3 * ((32 / 3) * pi + 0.025)) / (4 * pi)"
    by (intro divide_strict_right_mono) simp_all
  moreover have "0 \<le> (3 * ((4 / 3) * pi - 0.025)) / (4 * pi)"
    using pi_ge_two by simp
  ultimately show ?thesis
    unfolding curR1_def curR2_def safeV_reopened
    by (subst Math_pow_less_iff) simp_all
qed

lemma flowDir_reopened: "flowDir reopened = Dir_right"
  by (simp add: flowDir_def reopened_fields)

subsection \<open>Rounding to a double\<close>

lemma round_even_err: "\<bar>of_int (round_even z) - z\<bar> \<le> 1 / 2"
proof -
  have "of_int \<lfloor>z\<rfloor> \<le> z" "z < of_int \<lfloor>z\<rfloor> + 1"
    by linarith+
  then show ?thesis
    by (auto simp: round_even_def Let_def)
qed

lemma fl_err: "\<bar>fl a - a\<bar> \<le> \<bar>a\<bar> / 2 ^ 53"
proof (cases "a = 0")
  case True
  then show ?thesis by (simp add: fl_def)
next
  case False
  define k where "k = \<lfloor>log 2 \<bar>a\<bar>\<rfloor>"
  define sc :: real where "sc = 2 powr of_int (k - 52)"
  have sc_pos: "0 < sc"
    by (simp add: sc_def)
  have "of_int k \<le> log 2 \<bar>a\<bar>"
    by (simp add: k_def)
  then have "2 powr of_int k \<le> \<bar>a\<bar>"
    using False by (simp add: le_log_iff)
  moreover have "sc * 2 ^ 52 = 2 powr of_int k"
  proof -
    have "sc * 2 powr 52 = 2 powr (of_int (k - 52) + 52)"
      unfolding sc_def by (simp only: powr_add)
    then show ?thesis by simp
  qed
  ultimately have sc_le: "sc * 2 ^ 52 \<le> \<bar>a\<bar>"
    by simp
  have "fl a = of_int (round_even (a / sc)) * sc"
    using False by (simp add: fl_def Let_def k_def sc_def)
  then have "fl a - a = (of_int (round_even (a / sc)) - a / sc) * sc"
    using sc_pos by (simp add: field_simps)
  then have "\<bar>fl a - a\<bar> = \<bar>of_int (round_even (a / sc)) - a / sc\<bar> * sc"
    using sc_pos by (simp add: abs_mult)
  also have "\<dots> \<le> (1 / 2) * sc"
    using sc_pos round_even_err [of "a / sc"] by (intro mult_right_mono) simp_all
  also have "\<dots> \<le> \<bar>a\<bar> / 2 ^ 53"
    using sc_le by simp
  finally show ?thesis .
qed

lemma fl_scaled:
  assumes lo: "2 ^ 52 \<le> \<bar>a\<bar> * 2 ^ k" and hi: "\<bar>a\<bar> * 2 ^ k < 2 ^ 53"
  shows "fl a = of_int (round_even (a * 2 ^ k)) / 2 ^ k"
proof -
  have nz: "a \<noteq> 0"
    using lo by auto
  have "log 2 (\<bar>a\<bar> * 2 ^ k) = log 2 \<bar>a\<bar> + real k"
    using nz by (simp add: log_mult log_nat_power)
  moreover have "52 \<le> log 2 (\<bar>a\<bar> * 2 ^ k)"
  proof -
    have "2 powr 52 \<le> \<bar>a\<bar> * 2 ^ k"
      using lo by simp
    then show ?thesis
      using nz by (subst le_log_iff) simp_all
  qed
  moreover have "log 2 (\<bar>a\<bar> * 2 ^ k) < 53"
  proof -
    have "\<bar>a\<bar> * 2 ^ k < 2 powr 53"
      using hi by simp
    then show ?thesis
      using nz by (subst log_less_iff) simp_all
  qed
  ultimately have "52 - real k \<le> log 2 \<bar>a\<bar>" "log 2 \<bar>a\<bar> < 53 - real k"
    by simp_all
  then have "\<lfloor>log 2 \<bar>a\<bar>\<rfloor> = 52 - int k"
    by (intro floor_unique) simp_all
  then have e: "\<lfloor>log 2 \<bar>a\<bar>\<rfloor> - 52 = - int k"
    by simp
  have sc: "(2::real) powr of_int (- int k) = 1 / 2 ^ k"
    by (simp add: powr_minus powr_realpow divide_inverse)
  show ?thesis
    using nz by (simp add: fl_def Let_def e sc del: of_int_minus)
qed

lemma round_even_near:
  assumes "of_int m - 1 / 2 < z" and "z < of_int m + 1 / 2"
  shows "round_even z = m"
proof -
  have "\<lfloor>z\<rfloor> = m \<or> \<lfloor>z\<rfloor> = m - 1"
    using assms by linarith
  then show ?thesis
  proof
    assume "\<lfloor>z\<rfloor> = m"
    with assms show ?thesis
      by (simp add: round_even_def Let_def)
  next
    assume "\<lfloor>z\<rfloor> = m - 1"
    with assms show ?thesis
      by (simp add: round_even_def Let_def)
  qed
qed

subsection \<open>Doubles of the run from the sliders 1 and 2\<close>

lemma fl_int_small [simp]: "fl 1 = 1" "fl 8 = 8" "fl 100 = 100" "fl 50 = 50" "fl 2 = 2"
  by (subst fl_scaled [where k = 52], simp, simp, simp add: round_even_def Let_def,
      subst fl_scaled [where k = 49], simp, simp, simp add: round_even_def Let_def,
      subst fl_scaled [where k = 46], simp, simp, simp add: round_even_def Let_def,
      subst fl_scaled [where k = 47], simp, simp, simp add: round_even_def Let_def,
      subst fl_scaled [where k = 51], simp, simp, simp add: round_even_def Let_def)

lemma fl_four_thirds: "fl (4 / 3) = 6004799503160661 / 2 ^ 52"
  by (subst fl_scaled [where k = 52]) (simp_all add: round_even_def Let_def)

lemma fl_third: "fl (1 / 3) = 6004799503160661 / 2 ^ 54"
  by (subst fl_scaled [where k = 54]) (simp_all add: round_even_def Let_def)

lemma fl_lit_0001: "fl 0.0001 = 7378697629483821 / 2 ^ 66"
  by (subst fl_scaled [where k = 66]) (simp_all add: round_even_def Let_def)

lemma fl_lit_02: "fl 0.2 = 3602879701896397 / 2 ^ 54"
  by (subst fl_scaled [where k = 55]) (simp_all add: round_even_def Let_def)

lemma fl_lit_0005: "fl 0.0005 = 1152921504606847 / 2 ^ 61"
  by (subst fl_scaled [where k = 63]) (simp_all add: round_even_def Let_def)

lemma sphere_factor: "fl (fl (4 / 3) * Math_PI) = 4716158501352293 / 2 ^ 50"
  unfolding fl_four_thirds Math_PI_def
  by (subst fl_scaled [where k = 50]) (simp_all add: round_even_def Let_def)

lemma pow_cr_one: "pow_cr 1 e = 1"
  by (simp add: pow_cr_def)

lemma pow_cr_2_3: "pow_cr 2 3 = 8"
  by (simp add: pow_cr_def powr_numeral)

lemma powr_just_below_2:
  fixes t :: real
  assumes "0 < t"
  shows "2 - 2 * t < 2 powr (1 - t)" and "2 powr (1 - t) < 2"
proof -
  have "1 + - t * ln 2 \<le> exp (- t * ln 2)"
    by (rule exp_ge_add_one_self)
  moreover have "t * ln 2 < t * 1"
    using assms ln_2_less_1 by (intro mult_strict_left_mono) simp_all
  ultimately have "1 - t < exp (- t * ln 2)"
    by simp
  also have "exp (- t * ln 2) = 2 powr (- t)"
    by (simp add: powr_def)
  finally have "2 * (1 - t) < 2 powr 1 * 2 powr (- t)"
    by simp
  also have "\<dots> = 2 powr (1 - t)"
    by (simp only: powr_add [symmetric]) simp
  finally show "2 - 2 * t < 2 powr (1 - t)"
    by simp
  have "(2::real) powr (1 - t) < 2 powr 1"
    using assms by (intro powr_less_mono) simp_all
  then show "2 powr (1 - t) < 2"
    by simp
qed

lemma pow_cr_8_third: "pow_cr 8 (fl (1 / 3)) = 2"
proof -
  define t :: real where "t = 1 / 2 ^ 54"
  define c :: real where "c = 2 powr (1 - t)"
  have t: "0 < t" "2 * t = 1 / 2 ^ 53"
    by (simp_all add: t_def)
  have y: "fl (1 / 3) = (1 - t) / 3"
    by (simp add: fl_third t_def)
  have "3 * ((1 - t) / 3) = 1 - t"
    by simp
  then have "(2 powr 3) powr ((1 - t) / 3) = c"
    unfolding c_def by (simp only: powr_powr)
  moreover have "(2::real) powr 3 = 8"
    by (simp add: powr_numeral)
  ultimately have "8 powr ((1 - t) / 3) = c"
    by simp
  then have pw: "8 powr fl (1 / 3) = c"
    by (simp only: y)
  have c: "2 - 1 / 2 ^ 53 < c" "c < 2"
    using powr_just_below_2 [OF t(1)] t(2) by (simp_all add: c_def)
  have "round_even (c * 2 ^ 52) = 2 ^ 53"
    using c by (intro round_even_near) (simp_all add: field_simps)
  moreover have "2 ^ 52 \<le> \<bar>c\<bar> * 2 ^ 52" "\<bar>c\<bar> * 2 ^ 52 < 2 ^ 53"
    using c by simp_all
  ultimately have "fl c = 2"
    by (subst fl_scaled [where k = 52]) simp_all
  then show ?thesis
    by (simp add: pow_cr_def pw)
qed

lemma opened_d_1_2:
  "v1 (opened_d pow_cr 1 2) = 4716158501352293 / 2 ^ 50"
  "v2 (opened_d pow_cr 1 2) = 4716158501352293 / 2 ^ 47"
  "valveOpen (opened_d pow_cr 1 2)"
proof -
  have "fl (4716158501352293 / 2 ^ 50 * 1) = 4716158501352293 / 2 ^ 50"
    by (subst fl_scaled [where k = 50]) (simp_all add: round_even_def Let_def)
  then show "v1 (opened_d pow_cr 1 2) = 4716158501352293 / 2 ^ 50"
    by (simp add: opened_d_def syncVolumes_d_def sphere_factor pow_cr_one)
  have "fl (4716158501352293 / 2 ^ 50 * 8) = 4716158501352293 / 2 ^ 47"
    by (subst fl_scaled [where k = 47]) (simp_all add: round_even_def Let_def)
  then show "v2 (opened_d pow_cr 1 2) = 4716158501352293 / 2 ^ 47"
    by (simp add: opened_d_def syncVolumes_d_def sphere_factor pow_cr_2_3)
  show "valveOpen (opened_d pow_cr 1 2)"
    by (simp add: opened_d_def syncVolumes_d_def)
qed

lemma safeV_d_1_2:
  "safeV1_d (opened_d pow_cr 1 2) = 4716158501352293 / 2 ^ 50"
  "safeV2_d (opened_d pow_cr 1 2) = 4716158501352293 / 2 ^ 47"
proof -
  have "max (fl 0.0001) (4716158501352293 / 2 ^ 50) = 4716158501352293 / 2 ^ 50"
    unfolding fl_lit_0001 by simp
  then show "safeV1_d (opened_d pow_cr 1 2) = 4716158501352293 / 2 ^ 50"
    by (simp only: safeV1_d_def opened_d_1_2)
  have "max (fl 0.0001) (4716158501352293 / 2 ^ 47) = 4716158501352293 / 2 ^ 47"
    unfolding fl_lit_0001 by simp
  then show "safeV2_d (opened_d pow_cr 1 2) = 4716158501352293 / 2 ^ 47"
    by (simp only: safeV2_d_def opened_d_1_2)
qed

lemma four_pi_d: "fl (4 * Math_PI) = 884279719003555 / 2 ^ 46"
  unfolding Math_PI_def
  by (subst fl_scaled [where k = 49]) (simp_all add: round_even_def Let_def)

lemma curR_d_1_2:
  "curR1_d pow_cr (opened_d pow_cr 1 2) = 1"
  "curR2_d pow_cr (opened_d pow_cr 1 2) = 2"
proof -
  have n1: "fl (3 * (4716158501352293 / 2 ^ 50)) = 884279719003555 / 2 ^ 46"
    by (subst fl_scaled [where k = 49]) (simp_all add: round_even_def Let_def)
  have q1: "fl ((884279719003555 / 2 ^ 46) / (884279719003555 / 2 ^ 46)) = 1"
    by simp
  show "curR1_d pow_cr (opened_d pow_cr 1 2) = 1"
    by (simp only: curR1_d_def safeV_d_1_2 n1 four_pi_d q1 pow_cr_one)
  have n2: "fl (3 * (4716158501352293 / 2 ^ 47)) = 884279719003555 / 2 ^ 43"
    by (subst fl_scaled [where k = 46]) (simp_all add: round_even_def Let_def)
  have q2: "fl ((884279719003555 / 2 ^ 43) / (884279719003555 / 2 ^ 46)) = 8"
    by simp
  show "curR2_d pow_cr (opened_d pow_cr 1 2) = 2"
    by (simp only: curR2_d_def safeV_d_1_2 n2 four_pi_d q2 pow_cr_8_third)
qed

lemma live_d_1_2: "\<not> collapsed_d pow_cr (opened_d pow_cr 1 2)"
  unfolding collapsed_d_def curR_d_1_2 fl_lit_02 by simp

lemma flow_d_1_2: "flow_d pow_cr (opened_d pow_cr 1 2) = 3602879701896397 / 2 ^ 57"
proof -
  have p: "fl (fl (2 * 50) / 1) = 100" "fl (fl (2 * 50) / 2) = 50"
    by simp_all
  have d: "fl (100 - 50) = 50"
    by simp
  have m: "fl (50 * (1152921504606847 / 2 ^ 61)) = 3602879701896397 / 2 ^ 57"
    by (subst fl_scaled [where k = 58]) (simp_all add: round_even_def Let_def)
  show ?thesis
    by (simp only: flow_d_def p1_d_def p2_d_def curR_d_1_2 SURFACE_TENSION_def
        FLOW_RATE_CONSTANT_def p d fl_lit_0005 m)
qed

lemma newV_d_1_2:
  "newV1_d pow_cr (opened_d pow_cr 1 2) = 4688011003681227 / 2 ^ 50"
  "newV2_d pow_cr (opened_d pow_cr 1 2) = 589959617320147 / 2 ^ 44"
proof -
  have "fl (4716158501352293 / 2 ^ 50 - 3602879701896397 / 2 ^ 57) = 4688011003681227 / 2 ^ 50"
    by (subst fl_scaled [where k = 50]) (simp_all add: round_even_def Let_def)
  then show "newV1_d pow_cr (opened_d pow_cr 1 2) = 4688011003681227 / 2 ^ 50"
    by (simp only: newV1_d_def opened_d_1_2 flow_d_1_2)
  have "fl (4716158501352293 / 2 ^ 47 + 3602879701896397 / 2 ^ 57) = 589959617320147 / 2 ^ 44"
    by (subst fl_scaled [where k = 47]) (simp_all add: round_even_def Let_def)
  then show "newV2_d pow_cr (opened_d pow_cr 1 2) = 589959617320147 / 2 ^ 44"
    by (simp only: newV2_d_def opened_d_1_2 flow_d_1_2)
qed

subsection \<open>What rounding adds to the total volume\<close>

lemma step_d_live:
  "valveOpen s \<Longrightarrow> \<not> collapsed_d pw s \<Longrightarrow>
     v1 (step_d pw s) = newV1_d pw s \<and> v2 (step_d pw s) = newV2_d pw s \<and>
     valveOpen (step_d pw s)"
  by (simp add: step_d_def)

lemma step_d_slack:
  assumes "valveOpen s" and "\<not> collapsed_d pw s"
  shows "\<bar>(v1 (step_d pw s) + v2 (step_d pw s)) - (v1 s + v2 s)\<bar> \<le> rounding_slack pw s"
proof -
  let ?a = "v1 s - flow_d pw s" and ?b = "v2 s + flow_d pw s"
  have "(v1 (step_d pw s) + v2 (step_d pw s)) - (v1 s + v2 s) = (fl ?a - ?a) + (fl ?b - ?b)"
    using assms by (simp add: step_d_live newV1_d_def newV2_d_def)
  also have "\<bar>\<dots>\<bar> \<le> \<bar>fl ?a - ?a\<bar> + \<bar>fl ?b - ?b\<bar>"
    by (rule abs_triangle_ineq)
  also have "\<dots> \<le> \<bar>?a\<bar> / 2 ^ 53 + \<bar>?b\<bar> / 2 ^ 53"
    by (intro add_mono fl_err)
  also have "\<dots> = rounding_slack pw s"
    by (simp add: rounding_slack_def add_divide_distrib)
  finally show ?thesis .
qed

lemma steps_d_slack:
  "alive_d pw n s \<Longrightarrow>
     \<bar>(v1 (steps_d pw n s) + v2 (steps_d pw n s)) - (v1 s + v2 s)\<bar>
       \<le> (\<Sum>k<n. rounding_slack pw (steps_d pw k s))"
proof (induction n arbitrary: s)
  case 0
  then show ?case by simp
next
  case (Suc n)
  let ?t = "step_d pw s"
  from Suc.prems have live: "valveOpen s" "\<not> collapsed_d pw s" and rest: "alive_d pw n ?t"
    by simp_all
  have "\<bar>(v1 (steps_d pw n ?t) + v2 (steps_d pw n ?t)) - (v1 ?t + v2 ?t)\<bar>
          \<le> (\<Sum>k<n. rounding_slack pw (steps_d pw k ?t))"
    using rest by (rule Suc.IH)
  moreover have "\<bar>(v1 ?t + v2 ?t) - (v1 s + v2 s)\<bar> \<le> rounding_slack pw s"
    using live by (rule step_d_slack)
  ultimately have
    "\<bar>(v1 (steps_d pw n ?t) + v2 (steps_d pw n ?t)) - (v1 s + v2 s)\<bar>
       \<le> rounding_slack pw s + (\<Sum>k<n. rounding_slack pw (steps_d pw k ?t))"
    by linarith
  then show ?case
    by (simp only: sum.lessThan_Suc_shift steps_d.simps)
qed

section \<open>Claims about experiment 1\<close>

text \<open>
  C1, as amended. In exact arithmetic a step taken with the valve open that does not
  take the terminal branch turns the stored volumes into \<open>v1 - flow\<close> and \<open>v2 + flow\<close>,
  and their sum is the sum before the step, also after \<open>n\<close> such steps. The doubles the
  code stores are these two results rounded, whatever the engine's \<^verbatim>\<open>Math.pow\<close> is: the
  sum after the step differs from the sum before it by at most
  \<open>(\<bar>v1 - flow\<bar> + \<bar>v2 + flow\<bar>) / 2 ^ 53\<close>, and after \<open>n\<close> such steps by at most the sum of
  these bounds over the steps taken.
\<close>

theorem volume_conservation:
  "(valveOpen s \<and> \<not> collapsed s \<longrightarrow>
      v1 (step s) = v1 s - flow s \<and> v2 (step s) = v2 s + flow s \<and>
      v1 (step s) + v2 (step s) = v1 s + v2 s) \<and>
   (alive n s \<longrightarrow> v1 (steps n s) + v2 (steps n s) = v1 s + v2 s) \<and>
   (valveOpen s \<and> \<not> collapsed_d pw s \<longrightarrow>
      v1 (step_d pw s) = fl (v1 s - flow_d pw s) \<and>
      v2 (step_d pw s) = fl (v2 s + flow_d pw s) \<and>
      \<bar>(v1 (step_d pw s) + v2 (step_d pw s)) - (v1 s + v2 s)\<bar>
        \<le> (\<bar>v1 s - flow_d pw s\<bar> + \<bar>v2 s + flow_d pw s\<bar>) / 2 ^ 53) \<and>
   (alive_d pw n s \<longrightarrow>
      \<bar>(v1 (steps_d pw n s) + v2 (steps_d pw n s)) - (v1 s + v2 s)\<bar>
        \<le> (\<Sum>k<n. rounding_slack pw (steps_d pw k s)))"
proof -
  have "\<bar>(v1 (step_d pw s) + v2 (step_d pw s)) - (v1 s + v2 s)\<bar>
          \<le> (\<bar>v1 s - flow_d pw s\<bar> + \<bar>v2 s + flow_d pw s\<bar>) / 2 ^ 53"
    if "valveOpen s" "\<not> collapsed_d pw s"
    using step_d_slack [OF that] by (simp only: rounding_slack_def)
  then show ?thesis
    by (simp add: step_live newV1_def newV2_def steps_total_volume step_d_live
        newV1_d_def newV2_d_def steps_d_slack)
qed

theorem volume_conservation_witness:
  "valveOpen (opened 1 2) \<and> \<not> collapsed (opened 1 2) \<and>
   v1 (step (opened 1 2)) = v1 (opened 1 2) - flow (opened 1 2) \<and>
   v2 (step (opened 1 2)) = v2 (opened 1 2) + flow (opened 1 2) \<and>
   v1 (step (opened 1 2)) + v2 (step (opened 1 2)) = v1 (opened 1 2) + v2 (opened 1 2) \<and>
   alive (Suc (Suc 0)) (opened 1 2) \<and>
   v1 (steps (Suc (Suc 0)) (opened 1 2)) + v2 (steps (Suc (Suc 0)) (opened 1 2)) = 12 * pi \<and>
   valveOpen (opened_d pow_cr 1 2) \<and> \<not> collapsed_d pow_cr (opened_d pow_cr 1 2) \<and>
   alive_d pow_cr (Suc 0) (opened_d pow_cr 1 2) \<and>
   v1 (step_d pow_cr (opened_d pow_cr 1 2))
     = fl (v1 (opened_d pow_cr 1 2) - flow_d pow_cr (opened_d pow_cr 1 2)) \<and>
   v2 (step_d pow_cr (opened_d pow_cr 1 2))
     = fl (v2 (opened_d pow_cr 1 2) + flow_d pow_cr (opened_d pow_cr 1 2)) \<and>
   \<bar>(v1 (step_d pow_cr (opened_d pow_cr 1 2)) + v2 (step_d pow_cr (opened_d pow_cr 1 2)))
      - (v1 (opened_d pow_cr 1 2) + v2 (opened_d pow_cr 1 2))\<bar>
     \<le> (\<bar>v1 (opened_d pow_cr 1 2) - flow_d pow_cr (opened_d pow_cr 1 2)\<bar>
          + \<bar>v2 (opened_d pow_cr 1 2) + flow_d pow_cr (opened_d pow_cr 1 2)\<bar>) / 2 ^ 53 \<and>
   \<bar>(v1 (steps_d pow_cr (Suc 0) (opened_d pow_cr 1 2))
        + v2 (steps_d pow_cr (Suc 0) (opened_d pow_cr 1 2)))
      - (v1 (opened_d pow_cr 1 2) + v2 (opened_d pow_cr 1 2))\<bar>
     \<le> (\<Sum>k<Suc 0. rounding_slack pow_cr (steps_d pow_cr k (opened_d pow_cr 1 2)))"
proof -
  have total: "v1 (opened 1 2) + v2 (opened 1 2) = 12 * pi"
    by (simp add: opened_1_2)
  have real_part:
    "v1 (step (opened 1 2)) = v1 (opened 1 2) - flow (opened 1 2)"
    "v2 (step (opened 1 2)) = v2 (opened 1 2) + flow (opened 1 2)"
    "v1 (step (opened 1 2)) + v2 (step (opened 1 2)) = v1 (opened 1 2) + v2 (opened 1 2)"
    "v1 (steps (Suc (Suc 0)) (opened 1 2)) + v2 (steps (Suc (Suc 0)) (opened 1 2)) = 12 * pi"
    using volume_conservation [of "opened 1 2" "Suc (Suc 0)" pow_cr]
      live_opened_1_2 alive_2_opened_1_2 total
    by simp_all
  have live: "valveOpen (opened_d pow_cr 1 2)" "\<not> collapsed_d pow_cr (opened_d pow_cr 1 2)"
    by (simp_all only: opened_d_1_2 live_d_1_2 simp_thms)
  then have alive1: "alive_d pow_cr (Suc 0) (opened_d pow_cr 1 2)"
    by simp
  have double_part:
    "v1 (step_d pow_cr (opened_d pow_cr 1 2))
       = fl (v1 (opened_d pow_cr 1 2) - flow_d pow_cr (opened_d pow_cr 1 2))"
    "v2 (step_d pow_cr (opened_d pow_cr 1 2))
       = fl (v2 (opened_d pow_cr 1 2) + flow_d pow_cr (opened_d pow_cr 1 2))"
    "\<bar>(v1 (step_d pow_cr (opened_d pow_cr 1 2)) + v2 (step_d pow_cr (opened_d pow_cr 1 2)))
        - (v1 (opened_d pow_cr 1 2) + v2 (opened_d pow_cr 1 2))\<bar>
       \<le> (\<bar>v1 (opened_d pow_cr 1 2) - flow_d pow_cr (opened_d pow_cr 1 2)\<bar>
            + \<bar>v2 (opened_d pow_cr 1 2) + flow_d pow_cr (opened_d pow_cr 1 2)\<bar>) / 2 ^ 53"
    "\<bar>(v1 (steps_d pow_cr (Suc 0) (opened_d pow_cr 1 2))
          + v2 (steps_d pow_cr (Suc 0) (opened_d pow_cr 1 2)))
        - (v1 (opened_d pow_cr 1 2) + v2 (opened_d pow_cr 1 2))\<bar>
       \<le> (\<Sum>k<Suc 0. rounding_slack pow_cr (steps_d pow_cr k (opened_d pow_cr 1 2)))"
    using volume_conservation [of "opened_d pow_cr 1 2" "Suc 0" pow_cr] live alive1
    by blast+
  from live_opened_1_2 alive_2_opened_1_2 real_part live alive1 double_part show ?thesis
    by (simp only: simp_thms)
qed

text \<open>
  C1 as stated fails on the stored doubles. With the sliders at 1 and 2 and a correctly
  rounded \<^verbatim>\<open>Math.pow\<close>, the two volumes add up to \<open>42445426512170637 / 2 ^ 50\<close> before the
  first step and to \<open>42445426512170635 / 2 ^ 50\<close> after it; added as doubles they give
  37.69911184307752 before and 37.69911184307751 after.
\<close>

theorem volume_conservation_counterexample:
  "valveOpen (opened_d pow_cr 1 2) \<and> \<not> collapsed_d pow_cr (opened_d pow_cr 1 2) \<and>
   v1 (opened_d pow_cr 1 2) + v2 (opened_d pow_cr 1 2) = 42445426512170637 / 2 ^ 50 \<and>
   v1 (step_d pow_cr (opened_d pow_cr 1 2)) + v2 (step_d pow_cr (opened_d pow_cr 1 2))
     = 42445426512170635 / 2 ^ 50 \<and>
   v1 (step_d pow_cr (opened_d pow_cr 1 2)) + v2 (step_d pow_cr (opened_d pow_cr 1 2))
     \<noteq> v1 (opened_d pow_cr 1 2) + v2 (opened_d pow_cr 1 2) \<and>
   fl (v1 (opened_d pow_cr 1 2) + v2 (opened_d pow_cr 1 2)) = 5305678314021330 / 2 ^ 47 \<and>
   fl (v1 (step_d pow_cr (opened_d pow_cr 1 2)) + v2 (step_d pow_cr (opened_d pow_cr 1 2)))
     = 5305678314021329 / 2 ^ 47"
proof -
  have live: "valveOpen (opened_d pow_cr 1 2)" "\<not> collapsed_d pow_cr (opened_d pow_cr 1 2)"
    by (simp_all only: opened_d_1_2 live_d_1_2 simp_thms)
  have after:
    "v1 (step_d pow_cr (opened_d pow_cr 1 2)) = 4688011003681227 / 2 ^ 50"
    "v2 (step_d pow_cr (opened_d pow_cr 1 2)) = 589959617320147 / 2 ^ 44"
    using step_d_live [OF live] by (simp_all only: newV_d_1_2)
  have before_sum:
    "v1 (opened_d pow_cr 1 2) + v2 (opened_d pow_cr 1 2) = 42445426512170637 / 2 ^ 50"
    by (simp add: opened_d_1_2)
  have after_sum:
    "v1 (step_d pow_cr (opened_d pow_cr 1 2)) + v2 (step_d pow_cr (opened_d pow_cr 1 2))
       = 42445426512170635 / 2 ^ 50"
    by (simp add: after)
  have r_before: "fl (42445426512170637 / 2 ^ 50) = 5305678314021330 / 2 ^ 47"
    by (subst fl_scaled [where k = 47]) (simp_all add: round_even_def Let_def)
  have r_after: "fl (42445426512170635 / 2 ^ 50) = 5305678314021329 / 2 ^ 47"
    by (subst fl_scaled [where k = 47]) (simp_all add: round_even_def Let_def)
  have differ:
    "v1 (step_d pow_cr (opened_d pow_cr 1 2)) + v2 (step_d pow_cr (opened_d pow_cr 1 2))
       \<noteq> v1 (opened_d pow_cr 1 2) + v2 (opened_d pow_cr 1 2)"
    unfolding before_sum after_sum by simp
  from live differ show ?thesis
    by (simp only: before_sum after_sum r_before r_after simp_thms)
qed

text \<open>
  The direction of the flow follows the radii that \<^verbatim>\<open>step\<close> recovers from the stored
  volumes. Let the first \<open>n + 1\<close> steps find the valve open and not take the terminal
  branch. If the radius recovered for bubble A is below the one recovered for bubble B at
  the start, then on step \<open>n + 1\<close> the transferred volume is strictly positive, bubble A
  loses volume and bubble B gains it. If the two recovered radii are equal at the start,
  the transferred volume is zero and both volumes stay as they are.
\<close>

lemma recovered_flow_direction:
  assumes "alive (Suc n) s"
  shows "(curR1 s < curR2 s \<longrightarrow>
            0 < flow (steps n s) \<and>
            v1 (steps (Suc n) s) < v1 (steps n s) \<and>
            v2 (steps n s) < v2 (steps (Suc n) s)) \<and>
         (curR1 s = curR2 s \<longrightarrow>
            flow (steps n s) = 0 \<and>
            v1 (steps (Suc n) s) = v1 (steps n s) \<and>
            v2 (steps (Suc n) s) = v2 (steps n s))"
proof -
  let ?t = "steps n s"
  have live: "valveOpen ?t" "\<not> collapsed ?t"
    using assms by (simp_all add: alive_last)
  have next_v: "v1 (steps (Suc n) s) = v1 ?t - flow ?t" "v2 (steps (Suc n) s) = v2 ?t + flow ?t"
    using live by (simp_all only: steps_Suc_right) (simp_all add: step_live newV1_def newV2_def)
  have pos: "0 < flow ?t" if "curR1 s < curR2 s"
  proof (rule flow_pos)
    from assms have "alive n s" by (rule alive_Suc_D)
    then show "curR1 ?t < curR2 ?t" using that by (rule steps_keep_less)
  qed
  have zero: "flow ?t = 0" if "curR1 s = curR2 s"
    using that by (intro flow_zero steps_keep_equal)
  show ?thesis
    using pos zero by (simp add: next_v del: steps.simps)
qed

lemma recovered_flow_direction_example:
  "alive (Suc (Suc 0)) (opened 1 2) \<and> curR1 (opened 1 2) < curR2 (opened 1 2) \<and>
   0 < flow (steps (Suc 0) (opened 1 2)) \<and>
   v1 (steps (Suc (Suc 0)) (opened 1 2)) < v1 (steps (Suc 0) (opened 1 2)) \<and>
   v2 (steps (Suc 0) (opened 1 2)) < v2 (steps (Suc (Suc 0)) (opened 1 2)) \<and>
   alive (Suc 0) (opened 1 1) \<and> curR1 (opened 1 1) = curR2 (opened 1 1) \<and>
   flow (steps 0 (opened 1 1)) = 0 \<and>
   v1 (steps (Suc 0) (opened 1 1)) = v1 (steps 0 (opened 1 1)) \<and>
   v2 (steps (Suc 0) (opened 1 1)) = v2 (steps 0 (opened 1 1))"
proof -
  have less: "curR1 (opened 1 2) < curR2 (opened 1 2)"
    by (simp add: opened_1_2)
  have equal: "curR1 (opened 1 1) = curR2 (opened 1 1)"
    by (simp add: opened_1_1)
  have alive_eq: "alive (Suc 0) (opened 1 1)"
    using live_opened_1_1 by simp
  show ?thesis
    using recovered_flow_direction [OF alive_2_opened_1_2] recovered_flow_direction [OF alive_eq]
      less equal alive_2_opened_1_2 alive_eq
    by blast
qed

text \<open>
  C2 fails in the code. In the session \<open>reopened\<close> the valve was closed by hand, which
  leaves \<open>animating\<close> set, so the first effect stored no volumes when the sliders moved.
  The radii are 0.5 for bubble A and 1.5 for bubble B and the particles are drawn from A
  to B, but the step computes a negative flow from the stale volumes: bubble A, the one
  shown smaller, gains volume and bubble B loses it.
\<close>

theorem stale_volumes_reverse_flow:
  "r1 reopened = 0.5 \<and> r2 reopened = 1.5 \<and> r1 reopened < r2 reopened \<and>
   flowDir reopened = Dir_right \<and>
   valveOpen reopened \<and> \<not> collapsed reopened \<and>
   flow reopened < 0 \<and>
   v1 reopened < v1 (step reopened) \<and> v2 (step reopened) < v2 reopened"
proof -
  have f: "flow reopened < 0"
    using curR_reopened by (rule flow_neg)
  have live: "valveOpen reopened" "\<not> collapsed reopened"
    by (simp_all only: reopened_fields not_collapsed_reopened simp_thms)
  have "v1 (step reopened) = v1 reopened - flow reopened"
    "v2 (step reopened) = v2 reopened + flow reopened"
    using live by (simp_all add: step_live newV1_def newV2_def)
  with f live show ?thesis
    by (simp add: reopened_fields flowDir_reopened)
qed

text \<open>
  C3, as amended. Inside \<^verbatim>\<open>step\<close> each pressure is \<open>2 * SURFACE_TENSION / r\<close> for the
  recovered radius \<open>r\<close>, that is \<open>100 / r\<close>, and it is strictly decreasing on positive
  radii. The pressure shown beside a bubble divides by \<open>max 0.1 r\<close> instead: for
  \<open>ra < rb\<close> it is strictly decreasing when \<open>rb\<close> is above 0.1, and the same for both
  when \<open>rb\<close> is at most 0.1.
\<close>

theorem pressure_ordering:
  "p1 s = pressure (curR1 s) \<and> p2 s = pressure (curR2 s) \<and>
   render_p1 s = pressure (max 0.1 (r1 s)) \<and> render_p2 s = pressure (max 0.1 (r2 s)) \<and>
   pressure ra = 100 / ra \<and>
   (0 < ra \<and> ra < rb \<longrightarrow> pressure rb < pressure ra) \<and>
   (ra < rb \<and> 0.1 < rb \<longrightarrow> pressure (max 0.1 rb) < pressure (max 0.1 ra)) \<and>
   (ra < rb \<and> rb \<le> 0.1 \<longrightarrow> pressure (max 0.1 rb) = pressure (max 0.1 ra))"
proof -
  have "pressure (max 0.1 rb) < pressure (max 0.1 ra)" if "ra < rb" "0.1 < rb"
    using that by (intro pressure_antimono) (simp_all add: max_def)
  moreover have "pressure rb < pressure ra" if "0 < ra" "ra < rb"
    using that by (rule pressure_antimono)
  moreover have "pressure (max 0.1 rb) = pressure (max 0.1 ra)" if "ra < rb" "rb \<le> 0.1"
  proof -
    from that have "max 0.1 rb = 0.1" and "max 0.1 ra = 0.1"
      by (simp_all add: max_absorb1)
    then show ?thesis by simp
  qed
  ultimately show ?thesis
    by (simp add: p1_def p2_def render_p1_def render_p2_def pressure_def SURFACE_TENSION_def)
qed

theorem pressure_ordering_witness:
  "pressure 1 = 100 \<and> pressure 2 = 50 \<and> pressure 2 < pressure 1 \<and>
   pressure (max 0.1 0.3) < pressure (max 0.1 0.05) \<and>
   pressure (max 0.1 0.08) = pressure (max 0.1 0.05) \<and>
   pressure (max 0.1 0.05) = 1000"
  using pressure_ordering [of "opened 1 2" 1 2] pressure_ordering [of "opened 1 2" 2 3]
    pressure_ordering [of "opened 1 2" "0.05" "0.3"]
    pressure_ordering [of "opened 1 2" "0.05" "0.08"]
    pressure_ordering [of "opened 1 2" "0.1" 1]
  by simp

text \<open>
  C3 as stated fails for the pressure shown. One step after the valve is opened at
  radii 0.3 and 2, the radius of bubble A is positive and below 0.1; the pressure shown
  for it is 1000, and \<open>2 * SURFACE_TENSION / r\<close> is above 1000.
\<close>

theorem pressure_ordering_counterexample:
  "0 < r1 (step (opened 0.3 2)) \<and>
   render_p1 (step (opened 0.3 2)) = 1000 \<and>
   1000 < (2 * SURFACE_TENSION) / r1 (step (opened 0.3 2))"
proof -
  let ?r = "r1 (step (opened 0.3 2))"
  have r: "0 < ?r" "?r < 0.1"
    by (rule r1_step_opened_03_2)+
  then have "max 0.1 ?r = 0.1"
    by (simp add: max_def)
  then have "render_p1 (step (opened 0.3 2)) = 1000"
    by (simp add: render_p1_def SURFACE_TENSION_def)
  moreover have "1000 < (2 * SURFACE_TENSION) / ?r"
    using r by (simp add: SURFACE_TENSION_def field_simps)
  ultimately show ?thesis
    using r by simp
qed


text \<open>
  C4, as amended. On a step with the valve open that does not take the terminal branch,
  the volume that leaves bubble A and the volume that enters bubble B are both
  \<open>(p1 - p2) * FLOW_RATE_CONSTANT\<close> with \<open>FLOW_RATE_CONSTANT = 0.0005\<close>; no time step
  enters the product.
\<close>

theorem transferred_volume:
  assumes "valveOpen s" and "\<not> collapsed s"
  shows "v1 s - v1 (step s) = (p1 s - p2 s) * FLOW_RATE_CONSTANT \<and>
         v2 (step s) - v2 s = (p1 s - p2 s) * FLOW_RATE_CONSTANT \<and>
         FLOW_RATE_CONSTANT = 0.0005"
  using assms by (simp add: step_live newV1_def newV2_def flow_def FLOW_RATE_CONSTANT_def)

theorem transferred_volume_witness:
  "valveOpen (opened 1 2) \<and> \<not> collapsed (opened 1 2) \<and>
   p1 (opened 1 2) = 100 \<and> p2 (opened 1 2) = 50 \<and>
   v1 (opened 1 2) - v1 (step (opened 1 2)) = 0.025 \<and>
   v2 (step (opened 1 2)) - v2 (opened 1 2) = 0.025"
proof -
  have p: "p1 (opened 1 2) = 100" "p2 (opened 1 2) = 50"
    by (simp_all add: p1_def p2_def opened_1_2 SURFACE_TENSION_def)
  from live_opened_1_2 have "valveOpen (opened 1 2)" and "\<not> collapsed (opened 1 2)"
    by simp_all
  from transferred_volume [OF this] live_opened_1_2 p show ?thesis
    by simp
qed

text \<open>
  C4 as stated fails for a time step other than 1: with the radii 1 and 2 the step moves
  0.025, not the product with a time step of a sixtieth.
\<close>

theorem transferred_volume_counterexample:
  "v1 (opened 1 2) - v1 (step (opened 1 2)) \<noteq>
     (p1 (opened 1 2) - p2 (opened 1 2)) * FLOW_RATE_CONSTANT * (1 / 60)"
  by (simp add: step_opened_1_2 opened_1_2 p1_def p2_def SURFACE_TENSION_def
      FLOW_RATE_CONSTANT_def)

text \<open>
  C5, as amended. When the valve is open and a recovered radius is below 0.2, the step
  closes the valve, clears \<open>animating\<close> and leaves both radii as they were (it clamps
  nothing). With the valve closed, any number of further calls leaves both radii unchanged
  and the valve closed.
\<close>

theorem termination_policy:
  "(valveOpen s \<and> collapsed s \<longrightarrow>
      \<not> valveOpen (step s) \<and> \<not> animating (step s) \<and>
      r1 (step s) = r1 s \<and> r2 (step s) = r2 s) \<and>
   (\<not> valveOpen s \<longrightarrow>
      r1 (steps n s) = r1 s \<and> r2 (steps n s) = r2 s \<and> \<not> valveOpen (steps n s))"
  by (simp add: step_terminal steps_closed)

theorem termination_policy_witness:
  "valveOpen (step (opened 0.3 2)) \<and> collapsed (step (opened 0.3 2)) \<and>
   \<not> valveOpen (step (step (opened 0.3 2))) \<and>
   \<not> animating (step (step (opened 0.3 2))) \<and>
   r1 (step (step (opened 0.3 2))) = r1 (step (opened 0.3 2)) \<and>
   r2 (step (step (opened 0.3 2))) = r2 (step (opened 0.3 2)) \<and>
   r1 (steps (Suc (Suc 0)) (step (step (opened 0.3 2)))) = r1 (step (opened 0.3 2)) \<and>
   r2 (steps (Suc (Suc 0)) (step (step (opened 0.3 2)))) = r2 (step (opened 0.3 2)) \<and>
   \<not> valveOpen (steps (Suc (Suc 0)) (step (step (opened 0.3 2))))"
proof -
  let ?s = "step (opened 0.3 2)"
  have pre: "valveOpen ?s" "collapsed ?s"
    by (simp_all only: step_opened_03_2 collapsed_step_opened_03_2)
  from termination_policy [of ?s 0] pre
  have first: "\<not> valveOpen (step ?s)" "\<not> animating (step ?s)"
    "r1 (step ?s) = r1 ?s" "r2 (step ?s) = r2 ?s"
    by blast+
  from termination_policy [of "step ?s" "Suc (Suc 0)"] first(1)
  have "r1 (steps (Suc (Suc 0)) (step ?s)) = r1 (step ?s)"
    "r2 (steps (Suc (Suc 0)) (step ?s)) = r2 (step ?s)"
    "\<not> valveOpen (steps (Suc (Suc 0)) (step ?s))"
    by blast+
  with pre first show ?thesis
    by (simp only: simp_thms)
qed

text \<open>
  C5 as stated fails on the clamp: the run opened at radii 0.3 and 2 collapses after one
  step, and the terminal step leaves the radius of bubble A where it was, below the floor
  of 0.2.
\<close>

theorem termination_policy_counterexample:
  "valveOpen (step (opened 0.3 2)) \<and> collapsed (step (opened 0.3 2)) \<and>
   r1 (step (step (opened 0.3 2))) = r1 (step (opened 0.3 2)) \<and>
   r1 (step (step (opened 0.3 2))) < 0.2"
proof -
  let ?s = "step (opened 0.3 2)"
  have pre: "valveOpen ?s" "collapsed ?s"
    by (simp_all only: step_opened_03_2 collapsed_step_opened_03_2)
  then have same: "r1 (step ?s) = r1 ?s"
    by (simp add: step_terminal)
  have "r1 ?s < 0.2"
    using r1_step_opened_03_2(2) by simp
  with pre same show ?thesis
    by (simp only: simp_thms)
qed

text \<open>
  C10. On a step that finds the valve open and a recovered radius below 0.2, the state
  changes only in \<open>valveOpen\<close> and \<open>animating\<close>: the stored volumes and both radii are
  exactly as before the call.
\<close>

theorem collapse_is_atomic:
  assumes "valveOpen s" and "collapsed s"
  shows "step s = s\<lparr>valveOpen := False, animating := False\<rparr> \<and>
         v1 (step s) = v1 s \<and> v2 (step s) = v2 s \<and>
         r1 (step s) = r1 s \<and> r2 (step s) = r2 s"
  using assms by (simp add: step_terminal)

theorem collapse_is_atomic_witness:
  "valveOpen (step (opened 0.3 2)) \<and> collapsed (step (opened 0.3 2)) \<and>
   v1 (step (step (opened 0.3 2))) = (4 / 3) * pi * 0.027 - 17 / 120 \<and>
   v2 (step (step (opened 0.3 2))) = (32 / 3) * pi + 17 / 120 \<and>
   r1 (step (step (opened 0.3 2))) = r1 (step (opened 0.3 2)) \<and>
   r2 (step (step (opened 0.3 2))) = r2 (step (opened 0.3 2))"
proof -
  let ?s = "step (opened 0.3 2)"
  have pre: "valveOpen ?s" "collapsed ?s"
    by (simp_all only: step_opened_03_2 collapsed_step_opened_03_2)
  from collapse_is_atomic [OF pre] pre show ?thesis
    by (simp add: step_opened_03_2)
qed

section \<open>Facts about experiment 2\<close>

lemma offset_sq: "offset\<^sup>2 = 10000 / 3"
  by (simp add: offset_def power_divide)

lemma offset_bounds: "0 < offset" "offset < 100"
proof -
  show "0 < offset" by (simp add: offset_def)
  have "sqrt 1 < sqrt 3" by (simp del: real_sqrt_one)
  then have "1 < sqrt 3" by simp
  then show "offset < 100" by (simp add: offset_def field_simps)
qed

lemma slant_len: "sqrt (100\<^sup>2 + offset\<^sup>2) = 2 * offset"
proof (rule real_sqrt_unique)
  show "(2 * offset)\<^sup>2 = 100\<^sup>2 + offset\<^sup>2"
    by (simp add: power_mult_distrib offset_sq)
  show "0 \<le> 2 * offset"
    using offset_bounds by simp
qed

lemma seg_len_soap:
  "seg_len p_tl sp1 = 2 * offset" "seg_len p_tr sp1 = 2 * offset"
  "seg_len p_bl sp2 = 2 * offset" "seg_len p_br sp2 = 2 * offset"
  "seg_len sp1 p_tl = 2 * offset" "seg_len sp1 p_tr = 2 * offset"
  "seg_len sp2 p_bl = 2 * offset" "seg_len sp2 p_br = 2 * offset"
  using slant_len
  by (simp_all add: seg_len_def p_tl_def p_tr_def p_bl_def p_br_def sp1_def sp2_def
      power2_eq_square)

lemma seg_len_middle:
  "seg_len sp1 sp2 = 200 - 2 * offset" "seg_len sp2 sp1 = 200 - 2 * offset"
  using offset_bounds
  by (simp_all add: seg_len_def sp1_def sp2_def)

lemma seg_len_diagonal:
  "seg_len p_tl p_br = 200 * sqrt 2" "seg_len p_tr p_bl = 200 * sqrt 2"
proof -
  have "sqrt (200\<^sup>2 + 200\<^sup>2) = 200 * sqrt 2"
    by (rule real_sqrt_unique) (simp_all add: power_mult_distrib)
  then show "seg_len p_tl p_br = 200 * sqrt 2" "seg_len p_tr p_bl = 200 * sqrt 2"
    by (simp_all add: seg_len_def p_tl_def p_tr_def p_bl_def p_br_def)
qed


lemma sqrt2_bounds: "1.4135 < sqrt 2" "sqrt 2 < 1.4145"
proof -
  show "1.4135 < sqrt 2"
    by (rule real_less_rsqrt) (simp add: power2_eq_square)
  show "sqrt 2 < 1.4145"
    by (rule real_less_lsqrt) (simp_all add: power2_eq_square)
qed

lemma sqrt3_bounds: "1.7315 < sqrt 3" "sqrt 3 < 1.7325"
proof -
  show "1.7315 < sqrt 3"
    by (rule real_less_rsqrt) (simp add: power2_eq_square)
  show "sqrt 3 < 1.7325"
    by (rule real_less_lsqrt) (simp_all add: power2_eq_square)
qed

lemma offset_sqrt3: "6 * offset = 200 * sqrt 3"
  by (simp add: offset_def field_simps)

lemma total_len_direct: "total_len direct_lines = lenDirect * size_px"
  by (simp add: total_len_def direct_lines_def seg_len_diagonal lenDirect_def sideLength_def
      size_px_def)

lemma total_len_soap: "total_len soap_lines = lenSoap * size_px"
proof -
  have "total_len soap_lines = 200 + 6 * offset"
    by (simp add: total_len_def soap_lines_def seg_len_soap seg_len_middle)
  also have "\<dots> = lenSoap * size_px"
    using offset_sqrt3 by (simp add: lenSoap_def sideLength_def size_px_def algebra_simps)
  finally show ?thesis .
qed

lemma arccos_minus_half: "arccos (- (1 / 2)) = 2 * pi / 3"
proof -
  have "arccos (cos (2 * pi / 3)) = 2 * pi / 3"
    by (rule arccos_cos) simp_all
  then show ?thesis
    by (simp add: cos_120)
qed

lemma dot_top: "dot_at sp1 p_tl p_tr = - (20000 / 3)"
proof -
  have "dot_at sp1 p_tl p_tr = offset\<^sup>2 - 10000"
    by (simp add: dot_at_def sp1_def p_tl_def p_tr_def power2_eq_square)
  then show ?thesis
    by (simp add: offset_sq)
qed

lemma dot_bottom: "dot_at sp2 p_bl p_br = - (20000 / 3)"
proof -
  have "dot_at sp2 p_bl p_br = offset\<^sup>2 - 10000"
    by (simp add: dot_at_def sp2_def p_bl_def p_br_def power2_eq_square)
  then show ?thesis
    by (simp add: offset_sq)
qed

lemma dot_stem:
  "dot_at sp1 p_tl sp2 = - (offset * (200 - 2 * offset))"
  "dot_at sp1 p_tr sp2 = - (offset * (200 - 2 * offset))"
  "dot_at sp2 p_bl sp1 = - (offset * (200 - 2 * offset))"
  "dot_at sp2 p_br sp1 = - (offset * (200 - 2 * offset))"
  by (simp_all add: dot_at_def sp1_def sp2_def p_tl_def p_tr_def p_bl_def p_br_def
      algebra_simps)

lemma cos_fork: "- (20000 / 3) / (2 * offset * (2 * offset)) = - (1 / 2)"
proof -
  have "2 * offset * (2 * offset) = 4 * offset\<^sup>2"
    by (simp add: power2_eq_square)
  then show ?thesis
    by (simp add: offset_sq)
qed

lemma cos_stem:
  "- (offset * (200 - 2 * offset)) / (2 * offset * (200 - 2 * offset)) = - (1 / 2)"
  using offset_bounds by simp

section \<open>Claims about experiment 2\<close>

text \<open>
  C6. For the unit square (\<open>sideLength = 1\<close>) the direct length is \<open>2 * sqrt 2 * sideLength\<close>
  and the soap-film length is \<open>sideLength * (1 + sqrt 3)\<close>. They are the total lengths of
  the lines drawn in each mode, in units of the 200 pixel side. The soap-film length is
  strictly smaller, and the two are within 0.001 of 2.732 and of 2.828.
\<close>

theorem steiner_lengths:
  "sideLength = 1 \<and>
   lenDirect = 2 * sqrt 2 * sideLength \<and>
   lenSoap = sideLength * (1 + sqrt 3) \<and>
   total_len direct_lines = lenDirect * size_px \<and>
   total_len soap_lines = lenSoap * size_px \<and>
   lenSoap < lenDirect \<and>
   \<bar>lenSoap - 2.732\<bar> < 0.001 \<and>
   \<bar>lenDirect - 2.828\<bar> < 0.001"
proof -
  have soap: "2.7315 < lenSoap" "lenSoap < 2.7325"
    using sqrt3_bounds by (simp_all add: lenSoap_def sideLength_def)
  have direct: "2.827 < lenDirect" "lenDirect < 2.829"
    using sqrt2_bounds by (simp_all add: lenDirect_def sideLength_def)
  have "lenSoap < lenDirect"
    using soap direct by simp
  moreover have "\<bar>lenSoap - 2.732\<bar> < 0.001"
    unfolding abs_less_iff using soap by simp
  moreover have "\<bar>lenDirect - 2.828\<bar> < 0.001"
    unfolding abs_less_iff using direct by simp
  ultimately show ?thesis
    by (simp add: total_len_direct total_len_soap)
       (simp add: lenSoap_def lenDirect_def sideLength_def)
qed

text \<open>
  C7, as amended. Both junctions lie on the vertical midline of the square, each at
  distance \<open>(side / 2) / sqrt 3\<close> from the nearer horizontal edge, and the three segments
  that meet at each junction make angles of 120 degrees (\<open>2 * pi / 3\<close>) with one another.
\<close>

theorem steiner_junctions:
  "x sp1 = (x p_tl + x p_tr) / 2 \<and> x sp2 = (x p_bl + x p_br) / 2 \<and>
   y sp1 - y p_tl = (size_px / 2) / sqrt 3 \<and>
   y p_bl - y sp2 = (size_px / 2) / sqrt 3 \<and>
   angle_at sp1 p_tl p_tr = 2 * pi / 3 \<and>
   angle_at sp1 p_tl sp2 = 2 * pi / 3 \<and>
   angle_at sp1 p_tr sp2 = 2 * pi / 3 \<and>
   angle_at sp2 p_bl p_br = 2 * pi / 3 \<and>
   angle_at sp2 p_bl sp1 = 2 * pi / 3 \<and>
   angle_at sp2 p_br sp1 = 2 * pi / 3"
proof -
  have place:
    "x sp1 = (x p_tl + x p_tr) / 2" "x sp2 = (x p_bl + x p_br) / 2"
    "y sp1 - y p_tl = (size_px / 2) / sqrt 3" "y p_bl - y sp2 = (size_px / 2) / sqrt 3"
    by (simp_all add: sp1_def sp2_def p_tl_def p_tr_def p_bl_def p_br_def size_px_def
        offset_def)
  have fork: "angle_at sp1 p_tl p_tr = 2 * pi / 3" "angle_at sp2 p_bl p_br = 2 * pi / 3"
    by (simp_all only: angle_at_def dot_top dot_bottom seg_len_soap cos_fork
        arccos_minus_half)
  have stem:
    "angle_at sp1 p_tl sp2 = 2 * pi / 3" "angle_at sp1 p_tr sp2 = 2 * pi / 3"
    "angle_at sp2 p_bl sp1 = 2 * pi / 3" "angle_at sp2 p_br sp1 = 2 * pi / 3"
    by (simp_all only: angle_at_def dot_stem seg_len_soap seg_len_middle cos_stem
        arccos_minus_half)
  from place fork stem show ?thesis
    by (simp only: simp_thms)
qed

text \<open>
  C7 as stated fails on the distance: it is not \<open>side / sqrt 3\<close>, for either junction.
\<close>

theorem steiner_junctions_counterexample:
  "y sp1 - y p_tl \<noteq> size_px / sqrt 3 \<and> y p_bl - y sp2 \<noteq> size_px / sqrt 3"
  by (simp add: sp1_def sp2_def p_tl_def p_bl_def size_px_def offset_def)

section \<open>Facts about experiment 3\<close>

lemma interferenceColor_clamp: "t \<le> 0 \<Longrightarrow> interferenceColor t = ''rgb(20, 20, 20)''"
  by (simp add: interferenceColor_def max_absorb1)

lemma interferenceColor_nonneg:
  "0 \<le> t \<Longrightarrow>
     interferenceColor t =
       (if t < 30 then ''rgb(20, 20, 20)''
        else if t < 120 then ''rgb(240, 240, 250)''
        else if t < 250 then ''rgb(255, 220, 100)''
        else if t < 350 then ''rgb(200, 50, 255)''
        else if t < 450 then ''rgb(50, 100, 255)''
        else if t < 550 then ''rgb(50, 255, 150)''
        else if t < 650 then ''rgb(255, 255, 50)''
        else if t < 800 then ''rgb(255, 100, 100)''
        else ''rgb(100, 200, 200)'')"
  by (simp only: interferenceColor_def Let_def max_absorb2)

section \<open>Claims about experiment 3\<close>

text \<open>
  C8. \<^verbatim>\<open>interferenceColor\<close> is the step function over the bands [0,30), [30,120),
  [120,250), [250,350), [350,450), [450,550), [550,650), [650,800) and [800, infinity),
  each band with its one colour, and every negative thickness gets the colour of
  thickness 0, the colour of the first band.
\<close>

theorem color_bands:
  "(t < 0 \<longrightarrow> interferenceColor t = interferenceColor 0) \<and>
   interferenceColor 0 = ''rgb(20, 20, 20)'' \<and>
   (0 \<le> t \<and> t < 30 \<longrightarrow> interferenceColor t = ''rgb(20, 20, 20)'') \<and>
   (30 \<le> t \<and> t < 120 \<longrightarrow> interferenceColor t = ''rgb(240, 240, 250)'') \<and>
   (120 \<le> t \<and> t < 250 \<longrightarrow> interferenceColor t = ''rgb(255, 220, 100)'') \<and>
   (250 \<le> t \<and> t < 350 \<longrightarrow> interferenceColor t = ''rgb(200, 50, 255)'') \<and>
   (350 \<le> t \<and> t < 450 \<longrightarrow> interferenceColor t = ''rgb(50, 100, 255)'') \<and>
   (450 \<le> t \<and> t < 550 \<longrightarrow> interferenceColor t = ''rgb(50, 255, 150)'') \<and>
   (550 \<le> t \<and> t < 650 \<longrightarrow> interferenceColor t = ''rgb(255, 255, 50)'') \<and>
   (650 \<le> t \<and> t < 800 \<longrightarrow> interferenceColor t = ''rgb(255, 100, 100)'') \<and>
   (800 \<le> t \<longrightarrow> interferenceColor t = ''rgb(100, 200, 200)'')"
proof (cases "t < 0")
  case True
  then show ?thesis
    by (simp add: interferenceColor_clamp)
next
  case False
  then have "0 \<le> t" by simp
  then show ?thesis
    by (simp add: interferenceColor_nonneg interferenceColor_clamp)
qed

theorem color_bands_witness:
  "interferenceColor (- 50) = interferenceColor 0 \<and>
   interferenceColor 0 = ''rgb(20, 20, 20)'' \<and>
   interferenceColor 29 = ''rgb(20, 20, 20)'' \<and>
   interferenceColor 30 = ''rgb(240, 240, 250)'' \<and>
   interferenceColor 120 = ''rgb(255, 220, 100)'' \<and>
   interferenceColor 250 = ''rgb(200, 50, 255)'' \<and>
   interferenceColor 350 = ''rgb(50, 100, 255)'' \<and>
   interferenceColor 450 = ''rgb(50, 255, 150)'' \<and>
   interferenceColor 550 = ''rgb(255, 255, 50)'' \<and>
   interferenceColor 650 = ''rgb(255, 100, 100)'' \<and>
   interferenceColor 799 = ''rgb(255, 100, 100)'' \<and>
   interferenceColor 800 = ''rgb(100, 200, 200)'' \<and>
   interferenceColor 1000 = ''rgb(100, 200, 200)''"
  using color_bands [of "- 50"] color_bands [of 29] color_bands [of 30] color_bands [of 120]
    color_bands [of 250] color_bands [of 350] color_bands [of 450] color_bands [of 550]
    color_bands [of 650] color_bands [of 799] color_bands [of 800] color_bands [of 1000]
  by simp

text \<open>
  C9, as amended. At thickness 400 the colour is the one of the band [350,450),
  \<^verbatim>\<open>rgb(50, 100, 255)\<close>.
\<close>

theorem color_at_400: "interferenceColor 400 = ''rgb(50, 100, 255)''"
  by (simp add: interferenceColor_def)

text \<open>
  C9 as stated fails: the colour of the gold band [120,250), taken at thickness 200, is
  \<^verbatim>\<open>rgb(255, 220, 100)\<close>, and the colour at 400 differs from it.
\<close>

theorem color_at_400_counterexample:
  "interferenceColor 200 = ''rgb(255, 220, 100)'' \<and> interferenceColor 400 \<noteq> interferenceColor 200"
  by (simp add: interferenceColor_def)

end
